theory Spec2Isabelle
  imports Complex_Main "HOL-Library.Sublist"
begin

section \<open>NBA halftime score tracker: the tracker class of sports_scores.py\<close>

text \<open>
  Conventions of the embedding.
  \<^item> A Python float is a \<^typ>\<open>real\<close>: rounding, infinities and NaN are not represented.
  \<^item> A Python str is a \<^typ>\<open>string\<close> of ASCII characters.
  \<^item> A raised exception is a value \<open>Inl e\<close> of a sum type; \<open>None\<close> is Python's None.
  \<^item> A naive datetime is an \<^typ>\<open>int\<close>, the microseconds since a fixed instant, so
    that \<open>(a - b).total_seconds() > 3600\<close> is \<open>a - b > 3600000000\<close>.
\<close>

subsection \<open>Performance rating (analyze_performance)\<close>

text \<open>
  The four strings analyze_performance returns: the grey circle (no data), the fire
  (hot), the snowflake (cold) and the dash (average). They are pairwise different, so
  the string comparisons of monitor_scores are equalities of this datatype.
\<close>

datatype rating = NoData | Hot | Cold | Neutral

text \<open>
  The second argument is what get_team_stats returned: None or a float. Python's
  \<open>not avg_score_per_game\<close> holds for None and for 0.0.
\<close>

definition analyze_performance :: "real \<Rightarrow> real option \<Rightarrow> rating" where
  "analyze_performance current_score avg_score_per_game =
     (case avg_score_per_game of
        None \<Rightarrow> NoData
      | Some expected_score \<Rightarrow>
          if expected_score = 0 then NoData
          else
            let diff_percentage = ((current_score - expected_score) / expected_score) * 100
            in if diff_percentage \<ge> 5 then Hot
               else if diff_percentage \<le> -5 then Cold
               else Neutral)"

subsection \<open>Decoded JSON and the Python operations on it\<close>

text \<open>
  What \<open>response.json()\<close> returns: None, a bool, a number, a str, a list or a dict with
  str keys. A dict is the list of its items, keys distinct, in insertion order.
\<close>

datatype json =
    JNull
  | JBool bool
  | JNum real
  | JStr string
  | JArr "json list"
  | JObj "(string \<times> json) list"

datatype error =
  KeyError | TypeError | ValueError | IndexError | AttributeError | OverflowError

text \<open>Sequencing: the first exception raised ends the computation.\<close>

definition bind_e :: "error + 'a \<Rightarrow> ('a \<Rightarrow> error + 'b) \<Rightarrow> error + 'b" where
  "bind_e m f = (case m of Inl e \<Rightarrow> Inl e | Inr x \<Rightarrow> f x)"

text \<open>
  A number is a Python int or a finite float, by its value. \<open>float(n)\<close> raises
  OverflowError on an int that rounds beyond the largest double, that is from
  \<open>2 ^ 1024 - 2 ^ 970\<close> on in absolute value; no finite float is that large.
\<close>

definition float_overflows :: "real \<Rightarrow> bool" where
  "float_overflows r = (\<bar>r\<bar> \<ge> 2 ^ 1024 - 2 ^ 970)"

text \<open>
  \<open>float(v)\<close>. On a str the builtin parses the text; the parser is the parameter
  \<open>str_to_float\<close>, with \<open>None\<close> where float() raises ValueError. None, a list and a
  dict raise TypeError.
\<close>

definition py_float :: "(string \<Rightarrow> real option) \<Rightarrow> json \<Rightarrow> error + real" where
  "py_float str_to_float v =
     (case v of
        JNum r \<Rightarrow> if float_overflows r then Inl OverflowError else Inr r
      | JBool b \<Rightarrow> Inr (if b then 1 else 0)
      | JStr s \<Rightarrow> (case str_to_float s of None \<Rightarrow> Inl ValueError | Some r \<Rightarrow> Inr r)
      | _ \<Rightarrow> Inl TypeError)"

text \<open>\<open>k in x\<close> for a str \<open>k\<close>: key of a dict, element of a list, substring of a str.\<close>

definition py_contains :: "string \<Rightarrow> json \<Rightarrow> error + bool" where
  "py_contains k x =
     (case x of
        JObj kvs \<Rightarrow> Inr (map_of kvs k \<noteq> None)
      | JArr xs \<Rightarrow> Inr (JStr k \<in> set xs)
      | JStr s \<Rightarrow> Inr (sublist k s)
      | _ \<Rightarrow> Inl TypeError)"

text \<open>\<open>x[k]\<close> for a str \<open>k\<close>: only a dict can be subscripted by a str.\<close>

definition py_getitem :: "json \<Rightarrow> string \<Rightarrow> error + json" where
  "py_getitem x k =
     (case x of
        JObj kvs \<Rightarrow> (case map_of kvs k of None \<Rightarrow> Inl KeyError | Some v \<Rightarrow> Inr v)
      | _ \<Rightarrow> Inl TypeError)"

text \<open>\<open>x[i]\<close> for an int \<open>i \<ge> 0\<close>; the keys of a decoded dict are never ints.\<close>

definition py_index :: "json \<Rightarrow> nat \<Rightarrow> error + json" where
  "py_index x i =
     (case x of
        JArr xs \<Rightarrow> if i < length xs then Inr (xs ! i) else Inl IndexError
      | JStr s \<Rightarrow> if i < length s then Inr (JStr [s ! i]) else Inl IndexError
      | JObj kvs \<Rightarrow> Inl KeyError
      | _ \<Rightarrow> Inl TypeError)"

definition py_len :: "json \<Rightarrow> error + nat" where
  "py_len x =
     (case x of
        JArr xs \<Rightarrow> Inr (length xs)
      | JStr s \<Rightarrow> Inr (length s)
      | JObj kvs \<Rightarrow> Inr (length kvs)
      | _ \<Rightarrow> Inl TypeError)"

text \<open>The items a \<open>for\<close> loop visits: elements, characters, or the keys of a dict.\<close>

definition py_iter :: "json \<Rightarrow> error + json list" where
  "py_iter x =
     (case x of
        JArr xs \<Rightarrow> Inr xs
      | JStr s \<Rightarrow> Inr (map (\<lambda>c. JStr [c]) s)
      | JObj kvs \<Rightarrow> Inr (map (\<lambda>kv. JStr (fst kv)) kvs)
      | _ \<Rightarrow> Inl TypeError)"

text \<open>The items of \<open>x[:2]\<close>; a dict cannot be sliced.\<close>

definition py_take2 :: "json \<Rightarrow> error + json list" where
  "py_take2 x =
     (case x of
        JArr xs \<Rightarrow> Inr (take 2 xs)
      | JStr s \<Rightarrow> Inr (map (\<lambda>c. JStr [c]) (take 2 s))
      | _ \<Rightarrow> Inl TypeError)"

text \<open>\<open>x.get(k, d)\<close>: only a dict has the method.\<close>

definition py_get :: "json \<Rightarrow> string \<Rightarrow> json \<Rightarrow> error + json" where
  "py_get x k d =
     (case x of
        JObj kvs \<Rightarrow> Inr (case map_of kvs k of None \<Rightarrow> d | Some v \<Rightarrow> v)
      | _ \<Rightarrow> Inl AttributeError)"

subsection \<open>First-half score (get_halftime_score)\<close>

text \<open>\<open>float(score.get('value', 0))\<close> for one scoring period.\<close>

definition period_value :: "(string \<Rightarrow> real option) \<Rightarrow> json \<Rightarrow> error + real" where
  "period_value str_to_float score =
     bind_e (py_get score ''value'' (JNum 0)) (py_float str_to_float)"

text \<open>\<open>sum(...)\<close> over the generator: from 0, left to right, stopping at an exception.\<close>

fun sum_periods :: "(string \<Rightarrow> real option) \<Rightarrow> real \<Rightarrow> json list \<Rightarrow> error + real" where
  "sum_periods str_to_float acc [] = Inr acc"
| "sum_periods str_to_float acc (score # scores) =
     bind_e (period_value str_to_float score)
       (\<lambda>v. sum_periods str_to_float (acc + v) scores)"

text \<open>The body of the \<open>try\<close>; falling out of the \<open>if\<close> reaches \<open>return None\<close>.\<close>

definition get_halftime_score_try ::
  "(string \<Rightarrow> real option) \<Rightarrow> json \<Rightarrow> error + real option" where
  "get_halftime_score_try str_to_float competitor =
     bind_e (py_contains ''linescores'' competitor) (\<lambda>has.
       if \<not> has then Inr None
       else
         bind_e (py_getitem competitor ''linescores'') (\<lambda>linescores.
         bind_e (py_len linescores) (\<lambda>n.
           if n \<ge> 2 then
             bind_e (py_take2 linescores) (\<lambda>scores.
             bind_e (sum_periods str_to_float 0 scores) (\<lambda>s. Inr (Some s)))
           else Inr None)))"

text \<open>\<open>except Exception\<close> prints and falls through to \<open>return None\<close>.\<close>

definition get_halftime_score :: "(string \<Rightarrow> real option) \<Rightarrow> json \<Rightarrow> real option" where
  "get_halftime_score str_to_float competitor =
     (case get_halftime_score_try str_to_float competitor of
        Inl e \<Rightarrow> None
      | Inr r \<Rightarrow> r)"

text \<open>
  The first-half score as the specification words it: the sum of the first two
  scoring-period entries, an entry that is malformed or has no value counting 0, and
  absent when fewer than two periods are present.
\<close>

definition spec_period_value :: "(string \<Rightarrow> real option) \<Rightarrow> json \<Rightarrow> real" where
  "spec_period_value str_to_float score =
     (case period_value str_to_float score of Inl e \<Rightarrow> 0 | Inr v \<Rightarrow> v)"

definition spec_first_half :: "(string \<Rightarrow> real option) \<Rightarrow> json \<Rightarrow> real option" where
  "spec_first_half str_to_float competitor =
     (case competitor of
        JObj kvs \<Rightarrow>
          (case map_of kvs ''linescores'' of
             Some (JArr (p1 # p2 # rest)) \<Rightarrow>
               Some (spec_period_value str_to_float p1 + spec_period_value str_to_float p2)
           | _ \<Rightarrow> None)
      | _ \<Rightarrow> None)"

subsection \<open>The tracker and the world it observes\<close>

text \<open>
  The three mutable attributes of the tracker object. An averages dict maps a team name
  to a float; the timestamp is None until the first-half table has been read once.
\<close>

record tracker =
  nba_halftime_averages :: "string \<rightharpoonup> real"
  nba_second_half_averages :: "string \<rightharpoonup> real"
  last_averages_update :: "int option"

text \<open>
  A run of the program is the tracker together with its position in the outside world:
  how many times it has read the clock (\<open>datetime.now()\<close>) and how many refreshes of the
  averages it has started.
\<close>

record run = tracker +
  clock_reads :: nat
  fetches :: nat

text \<open>
  What one request for a teamrankings page yields: an exception anywhere in the request
  or in the HTML parser; a page without a \<open>table\<close> of class \<open>tr-table\<close>; or that table, as
  the list of its \<open>tr\<close> rows, each row the texts of its \<open>td\<close> cells.
\<close>

datatype page = FetchError | NoTable | Table "string list list"

text \<open>
  The outside world: the value of the \<open>n\<close>-th reading of the clock, and the two pages
  served to the \<open>n\<close>-th refresh.
\<close>

record world =
  clock :: "nat \<Rightarrow> int"
  first_half_page :: "nat \<Rightarrow> page"
  second_half_page :: "nat \<Rightarrow> page"

subsection \<open>String helpers (str.strip, str.lower)\<close>

definition whitespace :: string where
  "whitespace =
     [CHR 0x09, CHR 0x0A, CHR 0x0B, CHR 0x0C, CHR 0x0D,
      CHR 0x1C, CHR 0x1D, CHR 0x1E, CHR 0x1F, CHR 0x20]"

definition strip :: "string \<Rightarrow> string" where
  "strip s =
     rev (dropWhile (\<lambda>c. c \<in> set whitespace) (rev (dropWhile (\<lambda>c. c \<in> set whitespace) s)))"

definition lower_table :: "(char \<times> char) list" where
  "lower_table = zip ''ABCDEFGHIJKLMNOPQRSTUVWXYZ'' ''abcdefghijklmnopqrstuvwxyz''"

definition lower_char :: "char \<Rightarrow> char" where
  "lower_char c = (case map_of lower_table c of None \<Rightarrow> c | Some d \<Rightarrow> d)"

definition lower :: "string \<Rightarrow> string" where
  "lower s = map lower_char s"

subsection \<open>Refreshing the averages (update_nba_halftime_averages)\<close>

text \<open>
  The loop over the rows of a table: a row with at least three cells and a third cell
  that float() accepts stores the average under the stripped second cell; any other row
  is skipped.
\<close>

fun add_rows ::
  "(string \<Rightarrow> real option) \<Rightarrow> string list list \<Rightarrow> (string \<rightharpoonup> real) \<Rightarrow> (string \<rightharpoonup> real)" where
  "add_rows str_to_float [] averages = averages"
| "add_rows str_to_float (cols # rows) averages =
     add_rows str_to_float rows
       (if length cols \<ge> 3 then
          (case str_to_float (strip (cols ! 2)) of
             None \<Rightarrow> averages
           | Some avg_score \<Rightarrow> averages(strip (cols ! 1) \<mapsto> avg_score))
        else averages)"

text \<open>
  The first \<open>try\<close> block: the first-half page. The header row is dropped
  (\<open>find_all('tr')[1:]\<close>); the timestamp is set after the loop, inside \<open>if table\<close>.
\<close>

definition update_first_half ::
  "(string \<Rightarrow> real option) \<Rightarrow> world \<Rightarrow> run \<Rightarrow> run" where
  "update_first_half str_to_float w st =
     (case first_half_page w (fetches st) of
        Table rows \<Rightarrow>
          st\<lparr>nba_halftime_averages :=
               add_rows str_to_float (drop 1 rows) (nba_halftime_averages st),
             last_averages_update := Some (clock w (clock_reads st)),
             clock_reads := Suc (clock_reads st)\<rparr>
      | _ \<Rightarrow> st)"

text \<open>The second \<open>try\<close> block: the second-half page; it never touches the timestamp.\<close>

definition update_second_half ::
  "(string \<Rightarrow> real option) \<Rightarrow> world \<Rightarrow> run \<Rightarrow> run" where
  "update_second_half str_to_float w st =
     (case second_half_page w (fetches st) of
        Table rows \<Rightarrow>
          st\<lparr>nba_second_half_averages :=
               add_rows str_to_float (drop 1 rows) (nba_second_half_averages st)\<rparr>
      | _ \<Rightarrow> st)"

definition update_nba_halftime_averages ::
  "(string \<Rightarrow> real option) \<Rightarrow> world \<Rightarrow> run \<Rightarrow> run" where
  "update_nba_halftime_averages str_to_float w st =
     (let st1 = update_first_half str_to_float w st;
          st2 = update_second_half str_to_float w st1
      in st2\<lparr>fetches := Suc (fetches st)\<rparr>)"

text \<open>A fetch succeeds when it yields the statistics table.\<close>

definition fetch_succeeded :: "page \<Rightarrow> bool" where
  "fetch_succeeded p = (case p of Table rows \<Rightarrow> True | _ \<Rightarrow> False)"

subsection \<open>Looking up a team's average (get_team_stats)\<close>

text \<open>\<open>self.nba_team_mappings\<close>: nickname to teamrankings name, in insertion order.\<close>

definition nba_team_mappings :: "(string \<times> string) list" where
  "nba_team_mappings =
     [(''Hawks'', ''Atlanta''), (''Celtics'', ''Boston''), (''Nets'', ''Brooklyn''),
      (''Hornets'', ''Charlotte''), (''Bulls'', ''Chicago''),
      (''Cavaliers'', ''Cleveland''), (''Mavericks'', ''Dallas''),
      (''Nuggets'', ''Denver''), (''Pistons'', ''Detroit''),
      (''Warriors'', ''Golden State''), (''Rockets'', ''Houston''),
      (''Pacers'', ''Indiana''), (''Clippers'', ''LA Clippers''),
      (''Lakers'', ''LA Lakers''), (''Grizzlies'', ''Memphis''), (''Heat'', ''Miami''),
      (''Bucks'', ''Milwaukee''), (''Timberwolves'', ''Minnesota''),
      (''Pelicans'', ''New Orleans''), (''Knicks'', ''New York''),
      (''Thunder'', ''Okla City''), (''Magic'', ''Orlando''),
      (''76ers'', ''Philadelphia''), (''Suns'', ''Phoenix''),
      (''Trail Blazers'', ''Portland''), (''Kings'', ''Sacramento''),
      (''Spurs'', ''San Antonio''), (''Raptors'', ''Toronto''), (''Jazz'', ''Utah''),
      (''Wizards'', ''Washington'')]"

text \<open>\<open>team_id_mappings\<close>: ESPN's numeric team code to nickname.\<close>

definition team_id_mappings :: "(string \<times> string) list" where
  "team_id_mappings =
     [(''1'', ''Hawks''), (''2'', ''Celtics''), (''3'', ''Nets''), (''4'', ''Hornets''),
      (''5'', ''Bulls''), (''6'', ''Cavaliers''), (''7'', ''Mavericks''),
      (''8'', ''Nuggets''), (''9'', ''Pistons''), (''10'', ''Warriors''),
      (''11'', ''Rockets''), (''12'', ''Pacers''), (''13'', ''Clippers''),
      (''14'', ''Lakers''), (''15'', ''Grizzlies''), (''16'', ''Heat''),
      (''17'', ''Bucks''), (''18'', ''Timberwolves''), (''19'', ''Pelicans''),
      (''20'', ''Knicks''), (''21'', ''Thunder''), (''22'', ''Magic''),
      (''23'', ''76ers''), (''24'', ''Suns''), (''25'', ''Trail Blazers''),
      (''26'', ''Kings''), (''27'', ''Spurs''), (''28'', ''Raptors''), (''29'', ''Jazz''),
      (''30'', ''Wizards'')]"

text \<open>
  The fallback loop: the first nickname, in the order of the table, whose lower-case
  form occurs in the lower-cased identifier.
\<close>

fun search_by_name :: "string \<Rightarrow> (string \<times> string) list \<Rightarrow> string option" where
  "search_by_name team_id [] = None"
| "search_by_name team_id ((key, name) # rest) =
     (if sublist (lower key) (lower team_id) then Some name
      else search_by_name team_id rest)"

text \<open>
  Lines 146 to 191: the name of the team, or None. A list or a dict is unhashable, so
  \<open>team_id in team_id_mappings\<close> raises TypeError; None, a bool and a number are in no
  table and have no \<open>lower\<close> method.
\<close>

definition resolve_team_name :: "json \<Rightarrow> error + string option" where
  "resolve_team_name team_id =
     (case team_id of
        JStr s \<Rightarrow>
          (case map_of team_id_mappings s of
             Some nickname \<Rightarrow>
               (case map_of nba_team_mappings nickname of
                  None \<Rightarrow> Inl KeyError
                | Some name \<Rightarrow> Inr (Some name))
           | None \<Rightarrow> Inr (search_by_name s nba_team_mappings))
      | JArr xs \<Rightarrow> Inl TypeError
      | JObj kvs \<Rightarrow> Inl TypeError
      | _ \<Rightarrow> Inl AttributeError)"

text \<open>
  Lines 142 and 143: the averages are refreshed when the timestamp is None or older than
  3600 seconds. The clock is read only when there is a timestamp (\<open>or\<close> short-circuits).
\<close>

definition stale :: "world \<Rightarrow> run \<Rightarrow> bool" where
  "stale w st =
     (case last_averages_update st of
        None \<Rightarrow> True
      | Some t \<Rightarrow> clock w (clock_reads st) - t > 3600000000)"

definition read_clock :: "run \<Rightarrow> run" where
  "read_clock st =
     (case last_averages_update st of
        None \<Rightarrow> st
      | Some t \<Rightarrow> st\<lparr>clock_reads := Suc (clock_reads st)\<rparr>)"

definition refresh_if_stale :: "(string \<Rightarrow> real option) \<Rightarrow> world \<Rightarrow> run \<Rightarrow> run" where
  "refresh_if_stale str_to_float w st =
     (if stale w st then update_nba_halftime_averages str_to_float w (read_clock st)
      else read_clock st)"

text \<open>The body of the \<open>try\<close> of get_team_stats, with the run it leaves behind.\<close>

definition get_team_stats_try ::
  "(string \<Rightarrow> real option) \<Rightarrow> world \<Rightarrow> run \<Rightarrow> json \<Rightarrow> bool \<Rightarrow> (error + real option) \<times> run" where
  "get_team_stats_try str_to_float w st team_id second_half =
     (let st1 = refresh_if_stale str_to_float w st
      in (bind_e (resolve_team_name team_id) (\<lambda>team_name.
            case team_name of
              None \<Rightarrow> Inr None
            | Some name \<Rightarrow>
                if name = [] then Inr None
                else if second_half then Inr (nba_second_half_averages st1 name)
                else Inr (nba_halftime_averages st1 name)),
          st1))"

text \<open>\<open>except Exception\<close>: the error is printed and None returned.\<close>

definition get_team_stats ::
  "(string \<Rightarrow> real option) \<Rightarrow> world \<Rightarrow> run \<Rightarrow> json \<Rightarrow> bool \<Rightarrow> (error + real option) \<times> run" where
  "get_team_stats str_to_float w st team_id second_half =
     (case get_team_stats_try str_to_float w st team_id second_half of
        (Inl e, st1) \<Rightarrow> (Inr None, st1)
      | (Inr r, st1) \<Rightarrow> (Inr r, st1))"

subsection \<open>One polling cycle (the body of the loop of monitor_scores)\<close>

text \<open>The dict \<open>game_info\<close> built for a game that has a first-half score for both teams.\<close>

record game_info =
  game_event :: json
  game_home_team :: json
  game_away_team :: json
  game_home_halftime :: real
  game_away_halftime :: real

text \<open>
  A printed game line, by its parts: the values the f-string interpolates and whether
  the line is wrapped in the bold escape codes. Section headers and diagnostic messages
  are not modelled.
\<close>

record live_line =
  live_away_name :: json
  live_away_halftime :: real
  live_away_perf :: rating
  live_home_name :: json
  live_home_halftime :: real
  live_home_perf :: rating
  live_game_status :: json
  live_bold :: bool

record final_line =
  final_away_name :: json
  final_away_halftime :: real
  final_away_second_half :: real
  final_away_first_perf :: rating
  final_away_second_perf :: rating
  final_home_name :: json
  final_home_halftime :: real
  final_home_second_half :: real
  final_home_first_perf :: rating
  final_home_second_perf :: rating
  final_bold :: bool

datatype printed = Live live_line | Final final_line

text \<open>
  Lines 252 to 275 for one event: an exception, or None when the event is passed over,
  or whether its state is \<open>'post'\<close> together with its \<open>game_info\<close>.
\<close>

definition classify_event ::
  "(string \<Rightarrow> real option) \<Rightarrow> json \<Rightarrow> error + (bool \<times> game_info) option" where
  "classify_event str_to_float event =
     bind_e (py_contains ''competitions'' event) (\<lambda>has_competitions.
       if \<not> has_competitions then Inr None
       else
         bind_e (py_getitem event ''competitions'') (\<lambda>competitions.
         bind_e (py_len competitions) (\<lambda>n.
           if \<not> n > 0 then Inr None
           else
             bind_e (py_index competitions 0) (\<lambda>competition.
             bind_e (py_contains ''competitors'' competition) (\<lambda>has_competitors.
               if \<not> has_competitors then Inr None
               else
                 bind_e (py_getitem competition ''competitors'') (\<lambda>competitors.
                 bind_e (py_len competitors) (\<lambda>m.
                   if \<not> m \<ge> 2 then Inr None
                   else
                     bind_e (py_index competitors 0) (\<lambda>home_team.
                     bind_e (py_index competitors 1) (\<lambda>away_team.
                       case get_halftime_score str_to_float home_team of
                         None \<Rightarrow> Inr None
                       | Some home_halftime \<Rightarrow>
                           (case get_halftime_score str_to_float away_team of
                              None \<Rightarrow> Inr None
                            | Some away_halftime \<Rightarrow>
                                bind_e (py_getitem event ''status'') (\<lambda>status.
                                bind_e (py_getitem status ''type'') (\<lambda>type.
                                bind_e (py_getitem type ''state'') (\<lambda>state.
                                  Inr (Some (state = JStr ''post'',
                                    \<lparr>game_event = event,
                                     game_home_team = home_team,
                                     game_away_team = away_team,
                                     game_home_halftime = home_halftime,
                                     game_away_halftime = away_halftime\<rparr>)))))))))))))))"

text \<open>The loop over the events, appending to \<open>live_games\<close> and \<open>completed_games\<close>.\<close>

fun classify_events ::
  "(string \<Rightarrow> real option) \<Rightarrow> json list \<Rightarrow> game_info list \<Rightarrow> game_info list
     \<Rightarrow> error + (game_info list \<times> game_info list)" where
  "classify_events str_to_float [] live_games completed_games =
     Inr (live_games, completed_games)"
| "classify_events str_to_float (event # events) live_games completed_games =
     bind_e (classify_event str_to_float event) (\<lambda>r.
       case r of
         None \<Rightarrow> classify_events str_to_float events live_games completed_games
       | Some (post, game) \<Rightarrow>
           if post
           then classify_events str_to_float events live_games (completed_games @ [game])
           else classify_events str_to_float events (live_games @ [game]) completed_games)"

text \<open>Sequencing of steps that may raise and that change the run.\<close>

definition bind_s ::
  "(run \<Rightarrow> (error + 'a) \<times> run) \<Rightarrow> ('a \<Rightarrow> run \<Rightarrow> (error + 'b) \<times> run)
     \<Rightarrow> run \<Rightarrow> (error + 'b) \<times> run" where
  "bind_s m f st = (case m st of (Inl e, st1) \<Rightarrow> (Inl e, st1) | (Inr x, st1) \<Rightarrow> f x st1)"

definition pure_s :: "error + 'a \<Rightarrow> run \<Rightarrow> (error + 'a) \<times> run" where
  "pure_s m st = (m, st)"

text \<open>\<open>competitor['team'][field]\<close>.\<close>

definition team_field :: "json \<Rightarrow> string \<Rightarrow> error + json" where
  "team_field competitor field =
     bind_e (py_getitem competitor ''team'') (\<lambda>team. py_getitem team field)"

text \<open>\<open>self.get_team_stats(competitor['team']['id'], second_half)\<close>.\<close>

definition stats_for ::
  "(string \<Rightarrow> real option) \<Rightarrow> world \<Rightarrow> json \<Rightarrow> bool \<Rightarrow> run \<Rightarrow> (error + real option) \<times> run" where
  "stats_for str_to_float w competitor second_half =
     bind_s (pure_s (team_field competitor ''id''))
       (\<lambda>team_id st. get_team_stats str_to_float w st team_id second_half)"

text \<open>Lines 286 to 303: the line printed for one live game.\<close>

definition render_live_game ::
  "(string \<Rightarrow> real option) \<Rightarrow> world \<Rightarrow> game_info \<Rightarrow> run \<Rightarrow> (error + live_line) \<times> run" where
  "render_live_game str_to_float w game =
     bind_s (stats_for str_to_float w (game_home_team game) False) (\<lambda>home_stats.
     bind_s (stats_for str_to_float w (game_away_team game) False) (\<lambda>away_stats.
       let home_perf = analyze_performance (game_home_halftime game) home_stats;
           away_perf = analyze_performance (game_away_halftime game) away_stats
       in
         pure_s
           (bind_e (py_getitem (game_event game) ''status'') (\<lambda>status.
            bind_e (py_getitem status ''type'') (\<lambda>type.
            bind_e (py_getitem type ''detail'') (\<lambda>game_status.
            bind_e (team_field (game_away_team game) ''name'') (\<lambda>away_name.
            bind_e (team_field (game_home_team game) ''name'') (\<lambda>home_name.
              Inr \<lparr>live_away_name = away_name,
                   live_away_halftime = game_away_halftime game,
                   live_away_perf = away_perf,
                   live_home_name = home_name,
                   live_home_halftime = game_home_halftime game,
                   live_home_perf = home_perf,
                   live_game_status = game_status,
                   live_bold =
                     ((home_perf = Hot \<and> away_perf = Hot)
                      \<or> (home_perf = Cold \<and> away_perf = Cold))\<rparr>))))))))"

text \<open>\<open>float(competitor.get('score', 0))\<close>.\<close>

definition final_score :: "(string \<Rightarrow> real option) \<Rightarrow> json \<Rightarrow> error + real" where
  "final_score str_to_float competitor =
     bind_e (py_get competitor ''score'' (JNum 0)) (py_float str_to_float)"

text \<open>Lines 314 to 360: the line printed for one completed game.\<close>

definition render_completed_game ::
  "(string \<Rightarrow> real option) \<Rightarrow> world \<Rightarrow> game_info \<Rightarrow> run \<Rightarrow> (error + final_line) \<times> run" where
  "render_completed_game str_to_float w game =
     bind_s (pure_s (final_score str_to_float (game_home_team game))) (\<lambda>home_final.
     bind_s (pure_s (final_score str_to_float (game_away_team game))) (\<lambda>away_final.
       let home_halftime = game_home_halftime game;
           away_halftime = game_away_halftime game;
           home_second_half = home_final - home_halftime;
           away_second_half = away_final - away_halftime
       in
         bind_s (stats_for str_to_float w (game_home_team game) False) (\<lambda>home_first_stats.
         bind_s (stats_for str_to_float w (game_away_team game) False) (\<lambda>away_first_stats.
         bind_s (stats_for str_to_float w (game_home_team game) True) (\<lambda>home_second_stats.
         bind_s (stats_for str_to_float w (game_away_team game) True) (\<lambda>away_second_stats.
           let home_first_perf = analyze_performance home_halftime home_first_stats;
               away_first_perf = analyze_performance away_halftime away_first_stats;
               home_second_perf = analyze_performance home_second_half home_second_stats;
               away_second_perf = analyze_performance away_second_half away_second_stats
           in
             pure_s
               (bind_e (team_field (game_away_team game) ''name'') (\<lambda>away_name.
                bind_e (team_field (game_home_team game) ''name'') (\<lambda>home_name.
                  Inr \<lparr>final_away_name = away_name,
                       final_away_halftime = away_halftime,
                       final_away_second_half = away_second_half,
                       final_away_first_perf = away_first_perf,
                       final_away_second_perf = away_second_perf,
                       final_home_name = home_name,
                       final_home_halftime = home_halftime,
                       final_home_second_half = home_second_half,
                       final_home_first_perf = home_first_perf,
                       final_home_second_perf = home_second_perf,
                       final_bold =
                         ((home_first_perf = Hot \<and> away_first_perf = Hot)
                          \<or> (home_first_perf = Cold \<and> away_first_perf = Cold)
                          \<or> (home_second_perf = Hot \<and> away_second_perf = Hot)
                          \<or> (home_second_perf = Cold \<and> away_second_perf = Cold))\<rparr>)))))))))"

text \<open>
  The two display loops. An exception leaves the loop: the lines printed so far stay
  printed, and the exception reaches the handler of the cycle (line 365).
\<close>

fun render_live_games ::
  "(string \<Rightarrow> real option) \<Rightarrow> world \<Rightarrow> game_info list \<Rightarrow> run \<Rightarrow> printed list
     \<Rightarrow> error option \<times> printed list \<times> run" where
  "render_live_games str_to_float w [] st out = (None, out, st)"
| "render_live_games str_to_float w (game # games) st out =
     (case render_live_game str_to_float w game st of
        (Inl e, st1) \<Rightarrow> (Some e, out, st1)
      | (Inr game_line, st1) \<Rightarrow>
          render_live_games str_to_float w games st1 (out @ [Live game_line]))"

fun render_completed_games ::
  "(string \<Rightarrow> real option) \<Rightarrow> world \<Rightarrow> game_info list \<Rightarrow> run \<Rightarrow> printed list
     \<Rightarrow> error option \<times> printed list \<times> run" where
  "render_completed_games str_to_float w [] st out = (None, out, st)"
| "render_completed_games str_to_float w (game # games) st out =
     (case render_completed_game str_to_float w game st of
        (Inl e, st1) \<Rightarrow> (Some e, out, st1)
      | (Inr game_line, st1) \<Rightarrow>
          render_completed_games str_to_float w games st1 (out @ [Final game_line]))"

text \<open>Lines 246 to 275: the two lists of games, or None when there is no \<open>events\<close> key.\<close>

definition collect_games ::
  "(string \<Rightarrow> real option) \<Rightarrow> json \<Rightarrow> error + (game_info list \<times> game_info list) option" where
  "collect_games str_to_float data =
     bind_e (py_contains ''events'' data) (\<lambda>has_events.
       if \<not> has_events then Inr None
       else
         bind_e (py_getitem data ''events'') (\<lambda>events.
         bind_e (py_iter events) (\<lambda>event_list.
         bind_e (classify_events str_to_float event_list [] []) (\<lambda>games.
           Inr (Some games)))))"

text \<open>
  One cycle on a scoreboard that was fetched and decoded (lines 246 to 366): the
  exception the handler of the cycle caught, if any, the game lines printed, and the
  run afterwards.
\<close>

definition monitor_cycle ::
  "(string \<Rightarrow> real option) \<Rightarrow> world \<Rightarrow> json \<Rightarrow> run \<Rightarrow> error option \<times> printed list \<times> run" where
  "monitor_cycle str_to_float w data st =
     (case collect_games str_to_float data of
        Inl e \<Rightarrow> (Some e, [], st)
      | Inr None \<Rightarrow> (None, [], st)
      | Inr (Some (live_games, completed_games)) \<Rightarrow>
          (case render_live_games str_to_float w live_games st [] of
             (Some e, out, st1) \<Rightarrow> (Some e, out, st1)
           | (None, out, st1) \<Rightarrow>
               render_completed_games str_to_float w completed_games st1 out))"

subsection \<open>The emphasis rule\<close>

text \<open>Whether a printed line carries the bold escape codes.\<close>

fun emphasised :: "printed \<Rightarrow> bool" where
  "emphasised (Live l) = live_bold l"
| "emphasised (Final f) = final_bold f"

text \<open>Both teams hot or both cold; for a completed game, in the first or the second half.\<close>

definition shared_hot_or_cold :: "rating \<Rightarrow> rating \<Rightarrow> bool" where
  "shared_hot_or_cold a b = (a = b \<and> (a = Hot \<or> a = Cold))"

fun emphasis_expected :: "printed \<Rightarrow> bool" where
  "emphasis_expected (Live l) = shared_hot_or_cold (live_home_perf l) (live_away_perf l)"
| "emphasis_expected (Final f) =
     (shared_hot_or_cold (final_home_first_perf f) (final_away_first_perf f)
      \<or> shared_hot_or_cold (final_home_second_perf f) (final_away_second_perf f))"

text \<open>
  The rule as the specification words it: both teams share the same rating other than
  neutral (for a completed game, in the same half).
\<close>

definition shared_non_neutral :: "rating \<Rightarrow> rating \<Rightarrow> bool" where
  "shared_non_neutral a b = (a = b \<and> a \<noteq> Neutral)"

fun spec_emphasis :: "printed \<Rightarrow> bool" where
  "spec_emphasis (Live l) = shared_non_neutral (live_home_perf l) (live_away_perf l)"
| "spec_emphasis (Final f) =
     (shared_non_neutral (final_home_first_perf f) (final_away_first_perf f)
      \<or> shared_non_neutral (final_home_second_perf f) (final_away_second_perf f))"

subsection \<open>A parser for the examples\<close>

text \<open>
  float() on a non-empty str of ASCII digits. The examples below instantiate
  \<open>str_to_float\<close> with it and apply it to digit strings and to \<open>''abc''\<close> only, where
  float() raises ValueError as well.
\<close>

definition digit_table :: "(char \<times> nat) list" where
  "digit_table =
     [(CHR ''0'', 0), (CHR ''1'', 1), (CHR ''2'', 2), (CHR ''3'', 3), (CHR ''4'', 4),
      (CHR ''5'', 5), (CHR ''6'', 6), (CHR ''7'', 7), (CHR ''8'', 8), (CHR ''9'', 9)]"

fun digits_value :: "nat \<Rightarrow> string \<Rightarrow> nat option" where
  "digits_value n [] = Some n"
| "digits_value n (c # cs) =
     (case map_of digit_table c of
        None \<Rightarrow> None
      | Some d \<Rightarrow> digits_value (10 * n + d) cs)"

definition digits_to_float :: "string \<Rightarrow> real option" where
  "digits_to_float s = (if s = [] then None else map_option real (digits_value 0 s))"

subsection \<open>Runs and worlds for the examples\<close>

text \<open>The tracker as the constructor creates it, before the initial fetch.\<close>

definition initial_run :: run where
  "initial_run =
     \<lparr>nba_halftime_averages = Map.empty, nba_second_half_averages = Map.empty,
      last_averages_update = None, clock_reads = 0, fetches = 0\<rparr>"

text \<open>
  A world whose clock advances one second per reading and whose pages always hold the
  averages of the specification's end-to-end example, among rows that are skipped.
\<close>

definition example_world :: world where
  "example_world =
     \<lparr>clock = (\<lambda>n. 1000000 * int n),
      first_half_page = (\<lambda>n. Table
        [[], [''1'', ''LA Lakers'', ''52''], [''2'', '' Boston '', ''48''],
         [''3'', ''Brooklyn'', ''--''], [''4'', ''Miami'']]),
      second_half_page = (\<lambda>n. Table
        [[], [''1'', ''LA Lakers'', ''50''], [''2'', ''Boston'', ''47'']])\<rparr>"

text \<open>A world in which every fetch fails.\<close>

definition offline_world :: world where
  "offline_world =
     \<lparr>clock = (\<lambda>n. 4000000000 * int n),
      first_half_page = (\<lambda>n. FetchError),
      second_half_page = (\<lambda>n. NoTable)\<rparr>"

text \<open>A world in which only the first-half page can be fetched.\<close>

definition first_only_world :: world where
  "first_only_world =
     \<lparr>clock = (\<lambda>n. 4000000000 * int (Suc n)),
      first_half_page = (\<lambda>n. Table [[], [''1'', ''LA Lakers'', ''52'']]),
      second_half_page = (\<lambda>n. FetchError)\<rparr>"

text \<open>A tracker that filled both tables at time 0.\<close>

definition cached_run :: run where
  "cached_run =
     \<lparr>nba_halftime_averages = [''LA Lakers'' \<mapsto> 52, ''Boston'' \<mapsto> 48],
      nba_second_half_averages = [''LA Lakers'' \<mapsto> 50, ''Boston'' \<mapsto> 47],
      last_averages_update = Some 0, clock_reads = 0, fetches = 1\<rparr>"

text \<open>Scoreboard events shaped like ESPN's, for the examples.\<close>

definition example_competitor :: "string \<Rightarrow> string \<Rightarrow> json \<Rightarrow> real list \<Rightarrow> json" where
  "example_competitor name team_id score periods =
     JObj [(''team'', JObj [(''id'', JStr team_id), (''name'', JStr name)]),
           (''score'', score),
           (''linescores'', JArr (map (\<lambda>v. JObj [(''value'', JNum v)]) periods))]"

definition example_event :: "string \<Rightarrow> string \<Rightarrow> json \<Rightarrow> json \<Rightarrow> json" where
  "example_event state detail home away =
     JObj [(''competitions'', JArr [JObj [(''competitors'', JArr [home, away])]]),
           (''status'', JObj [(''type'',
              JObj [(''state'', JStr state), (''detail'', JStr detail)])])]"

definition lakers_celtics_final :: json where
  "lakers_celtics_final =
     example_event ''post'' ''Final''
       (example_competitor ''Lakers'' ''14'' (JStr ''110'') [30, 25, 28, 27])
       (example_competitor ''Celtics'' ''2'' (JStr ''95'') [24, 26, 20, 25])"

definition lakers_celtics_live :: json where
  "lakers_celtics_live =
     example_event ''in'' ''Halftime''
       (example_competitor ''Lakers'' ''14'' (JStr ''55'') [30, 25])
       (example_competitor ''Celtics'' ''2'' (JStr ''51'') [25, 26])"

definition bad_score_final :: json where
  "bad_score_final =
     example_event ''post'' ''Final''
       (example_competitor ''Heat'' ''16'' (JStr ''abc'') [30, 25, 28, 27])
       (example_competitor ''Bulls'' ''5'' (JStr ''95'') [24, 26, 20, 25])"

definition no_linescores_event :: json where
  "no_linescores_event =
     example_event ''in'' ''1st Quarter''
       (JObj [(''team'', JObj [(''id'', JStr ''16''), (''name'', JStr ''Heat'')]),
              (''score'', JStr ''12'')])
       (example_competitor ''Bulls'' ''5'' (JStr ''10'') [10])"

definition scoreboard :: "json list \<Rightarrow> json" where
  "scoreboard events = JObj [(''events'', JArr events)]"

text \<open>The \<open>game_info\<close> of two of these events, and lines the examples print.\<close>

definition lakers_celtics_game :: game_info where
  "lakers_celtics_game =
     \<lparr>game_event = lakers_celtics_final,
      game_home_team = example_competitor ''Lakers'' ''14'' (JStr ''110'') [30, 25, 28, 27],
      game_away_team = example_competitor ''Celtics'' ''2'' (JStr ''95'') [24, 26, 20, 25],
      game_home_halftime = 55,
      game_away_halftime = 50\<rparr>"

definition lakers_celtics_line :: final_line where
  "lakers_celtics_line =
     \<lparr>final_away_name = JStr ''Celtics'', final_away_halftime = 50,
      final_away_second_half = 45, final_away_first_perf = Neutral,
      final_away_second_perf = Neutral, final_home_name = JStr ''Lakers'',
      final_home_halftime = 55, final_home_second_half = 55,
      final_home_first_perf = Hot, final_home_second_perf = Hot,
      final_bold = False\<rparr>"

definition no_data_line :: live_line where
  "no_data_line =
     \<lparr>live_away_name = JStr ''Celtics'', live_away_halftime = 51,
      live_away_perf = NoData, live_home_name = JStr ''Lakers'',
      live_home_halftime = 55, live_home_perf = NoData,
      live_game_status = JStr ''Halftime'', live_bold = False\<rparr>"

definition both_hot_line :: live_line where
  "both_hot_line =
     \<lparr>live_away_name = JStr ''Celtics'', live_away_halftime = 51,
      live_away_perf = Hot, live_home_name = JStr ''Lakers'',
      live_home_halftime = 55, live_home_perf = Hot,
      live_game_status = JStr ''Halftime'', live_bold = True\<rparr>"

definition bad_score_game :: game_info where
  "bad_score_game =
     \<lparr>game_event = bad_score_final,
      game_home_team = example_competitor ''Heat'' ''16'' (JStr ''abc'') [30, 25, 28, 27],
      game_away_team = example_competitor ''Bulls'' ''5'' (JStr ''95'') [24, 26, 20, 25],
      game_home_halftime = 55,
      game_away_halftime = 50\<rparr>"

section \<open>Properties\<close>

subsection \<open>Evaluating the overflow test\<close>

text \<open>A number below a million in absolute value does not overflow.\<close>

lemma float_overflows_code [code]:
  "float_overflows r =
     (if \<bar>r\<bar> < 1000000 then False else \<bar>r\<bar> \<ge> 2 ^ 1024 - 2 ^ 970)"
  by (simp add: float_overflows_def)

lemma float_overflows_zero [simp]: "\<not> float_overflows 0"
  by (simp add: float_overflows_def)

subsection \<open>C1: the classification thresholds\<close>

text \<open>
  C1. For every actual score \<open>x\<close> and expected average \<open>e\<close>: the rating is no-data when
  \<open>e\<close> is absent or zero; otherwise, with \<open>d = (x - e) / e * 100\<close>, it is hot when
  \<open>d \<ge> 5\<close>, cold when \<open>d \<le> -5\<close> and neutral otherwise; both thresholds are inclusive,
  so \<open>d = 5\<close> is hot and \<open>d = -5\<close> is cold.
\<close>

theorem analyze_performance_thresholds:
  "analyze_performance x None = NoData
   \<and> analyze_performance x (Some 0) = NoData
   \<and> (e \<noteq> 0 \<longrightarrow>
        ((x - e) / e * 100 \<ge> 5 \<longrightarrow> analyze_performance x (Some e) = Hot)
      \<and> ((x - e) / e * 100 \<le> -5 \<longrightarrow> analyze_performance x (Some e) = Cold)
      \<and> (\<not> (x - e) / e * 100 \<ge> 5 \<and> \<not> (x - e) / e * 100 \<le> -5
            \<longrightarrow> analyze_performance x (Some e) = Neutral)
      \<and> ((x - e) / e * 100 = 5 \<longrightarrow> analyze_performance x (Some e) = Hot)
      \<and> ((x - e) / e * 100 = -5 \<longrightarrow> analyze_performance x (Some e) = Cold))"
  by (simp add: analyze_performance_def Let_def)

theorem analyze_performance_thresholds_witness:
  "analyze_performance 105 (Some 100) = Hot
   \<and> analyze_performance 95 (Some 100) = Cold
   \<and> analyze_performance 102 (Some 100) = Neutral
   \<and> analyze_performance 102 None = NoData
   \<and> analyze_performance 102 (Some 0) = NoData
   \<and> (105 - 100) / 100 * 100 = (5::real)
   \<and> (95 - 100) / 100 * 100 = (-5::real)"
  using analyze_performance_thresholds [of 105 100]
        analyze_performance_thresholds [of 95 100]
        analyze_performance_thresholds [of 102 100]
  by simp

subsection \<open>C2: the first-half score\<close>

lemma period_value_missing:
  "map_of kvs ''value'' = None \<Longrightarrow> period_value pf (JObj kvs) = Inr 0"
  by (simp add: period_value_def py_get_def bind_e_def py_float_def)

lemma get_halftime_score_two:
  assumes "map_of kvs ''linescores'' = Some (JArr (p1 # p2 # rest))"
  shows "get_halftime_score pf (JObj kvs) =
           (case period_value pf p1 of
              Inl e \<Rightarrow> None
            | Inr a \<Rightarrow> (case period_value pf p2 of Inl e \<Rightarrow> None | Inr b \<Rightarrow> Some (a + b)))"
  using assms
  by (simp add: get_halftime_score_def get_halftime_score_try_def py_contains_def
      py_getitem_def py_len_def py_take2_def bind_e_def split: sum.splits)

lemma get_halftime_score_short:
  assumes "map_of kvs ''linescores'' = Some (JArr ls)" and "length ls < 2"
  shows "get_halftime_score pf (JObj kvs) = None"
  using assms
  by (simp add: get_halftime_score_def get_halftime_score_try_def py_contains_def
      py_getitem_def py_len_def bind_e_def)

lemma get_halftime_score_no_linescores:
  assumes "map_of kvs ''linescores'' = None"
  shows "get_halftime_score pf (JObj kvs) = None"
  using assms
  by (simp add: get_halftime_score_def get_halftime_score_try_def py_contains_def bind_e_def)

lemma get_halftime_score_cases:
  "get_halftime_score pf competitor =
     (case competitor of
        JObj kvs \<Rightarrow>
          (case map_of kvs ''linescores'' of
             Some (JArr (p1 # p2 # rest)) \<Rightarrow>
               (case period_value pf p1 of
                  Inl e \<Rightarrow> None
                | Inr a \<Rightarrow> (case period_value pf p2 of Inl e \<Rightarrow> None | Inr b \<Rightarrow> Some (a + b)))
           | _ \<Rightarrow> None)
      | _ \<Rightarrow> None)"
proof (cases competitor)
  case (JObj kvs)
  show ?thesis
  proof (cases "map_of kvs ''linescores''")
    case None
    with JObj show ?thesis by (simp add: get_halftime_score_no_linescores)
  next
    case (Some ls)
    show ?thesis
    proof (cases ls)
      case (JArr xs)
      show ?thesis
      proof (cases "length xs < 2")
        case True
        then have "xs = [] \<or> (\<exists>a. xs = [a])" by (cases xs; cases "tl xs") auto
        with True JObj Some JArr show ?thesis
          using get_halftime_score_short [of kvs xs pf] by auto
      next
        case False
        then obtain p1 p2 rest where "xs = p1 # p2 # rest"
          by (cases xs; cases "tl xs") auto
        with JObj Some JArr show ?thesis
          using get_halftime_score_two [of kvs p1 p2 rest pf] by simp
      qed
    next
      case (JStr s)
      with JObj Some show ?thesis
        by (cases s; cases "tl s")
           (auto simp add: get_halftime_score_def get_halftime_score_try_def
              py_contains_def py_getitem_def py_len_def py_take2_def bind_e_def
              period_value_def py_get_def numeral_2_eq_2)
    qed (use JObj Some in \<open>simp_all add: get_halftime_score_def get_halftime_score_try_def
           py_contains_def py_getitem_def py_len_def py_take2_def bind_e_def\<close>)
  qed
qed (simp_all add: get_halftime_score_def get_halftime_score_try_def py_contains_def
       py_getitem_def bind_e_def)

lemma period_value_cases:
  "period_value pf score =
     (case score of
        JObj kv \<Rightarrow>
          (case map_of kv ''value'' of
             None \<Rightarrow> Inr 0
           | Some (JNum r) \<Rightarrow> if \<bar>r\<bar> \<ge> 2 ^ 1024 - 2 ^ 970 then Inl OverflowError else Inr r
           | Some (JBool b) \<Rightarrow> Inr (if b then 1 else 0)
           | Some (JStr s) \<Rightarrow> (case pf s of None \<Rightarrow> Inl ValueError | Some x \<Rightarrow> Inr x)
           | Some _ \<Rightarrow> Inl TypeError)
      | _ \<Rightarrow> Inl AttributeError)"
  by (simp add: period_value_def py_get_def py_float_def bind_e_def float_overflows_def
      split: json.splits option.splits)

text \<open>
  C2 as stated fails: a scoring period whose value is malformed (here JSON null, on which
  float() raises TypeError) does not count 0; the exception is caught and the whole
  first-half score is absent. The specification's wording gives 0 + 30 there.
\<close>

theorem get_halftime_score_malformed_counterexample:
  "get_halftime_score digits_to_float
     (JObj [(''linescores'',
        JArr [JObj [(''value'', JNull)], JObj [(''value'', JNum 30)]])]) = None
   \<and> spec_first_half digits_to_float
     (JObj [(''linescores'',
        JArr [JObj [(''value'', JNull)], JObj [(''value'', JNum 30)]])]) = Some 30"
  by (simp add: get_halftime_score_cases spec_first_half_def spec_period_value_def
      period_value_cases)

text \<open>
  C2 (amended). For every competitor record, get_halftime_score is the sum of
  \<open>float(entry.get('value', 0))\<close> over the first two scoring-period entries, an entry
  without a \<open>value\<close> key counting 0; it is absent (None), never zero or a partial sum,
  when fewer than two scoring periods are present (no \<open>linescores\<close> key, or a list of
  length 0 or 1), and also when the record or the list is not of that shape or one of
  the first two entries is malformed: not a dict, or a dict whose value float() rejects
  (None, a list, a dict, a str float() cannot parse, an int beyond the range of a
  float).
\<close>

theorem get_halftime_score_first_two:
  "get_halftime_score pf competitor =
     (case competitor of
        JObj kvs \<Rightarrow>
          (case map_of kvs ''linescores'' of
             Some (JArr (p1 # p2 # rest)) \<Rightarrow>
               (case period_value pf p1 of
                  Inl e \<Rightarrow> None
                | Inr a \<Rightarrow> (case period_value pf p2 of Inl e \<Rightarrow> None | Inr b \<Rightarrow> Some (a + b)))
           | _ \<Rightarrow> None)
      | _ \<Rightarrow> None)
   \<and> period_value pf score =
       (case score of
          JObj kv \<Rightarrow>
            (case map_of kv ''value'' of
               None \<Rightarrow> Inr 0
             | Some (JNum r) \<Rightarrow>
                 if \<bar>r\<bar> \<ge> 2 ^ 1024 - 2 ^ 970 then Inl OverflowError else Inr r
             | Some (JBool b) \<Rightarrow> Inr (if b then 1 else 0)
             | Some (JStr s) \<Rightarrow> (case pf s of None \<Rightarrow> Inl ValueError | Some x \<Rightarrow> Inr x)
             | Some _ \<Rightarrow> Inl TypeError)
        | _ \<Rightarrow> Inl AttributeError)
   \<and> (map_of lkvs ''linescores'' = Some (JArr (q1 # q2 # others))
        \<and> (period_value pf q1 = Inl err \<or> period_value pf q2 = Inl err) \<longrightarrow>
        get_halftime_score pf (JObj lkvs) = None)
   \<and> (map_of lkvs ''linescores'' = Some (JArr (q1 # q2 # others))
        \<and> ((\<forall>kv. q1 \<noteq> JObj kv) \<or> (\<forall>kv. q2 \<noteq> JObj kv)) \<longrightarrow>
        get_halftime_score pf (JObj lkvs) = None)
   \<and> (map_of lkvs ''linescores'' = Some (JArr (q1 # q2 # others))
        \<and> period_value pf q1 = Inr v1 \<and> period_value pf q2 = Inr v2 \<longrightarrow>
        get_halftime_score pf (JObj lkvs) = Some (v1 + v2))"
proof -
  have a: "get_halftime_score pf (JObj lkvs) = None"
    if "map_of lkvs ''linescores'' = Some (JArr (q1 # q2 # others))"
      and "period_value pf q1 = Inl err \<or> period_value pf q2 = Inl err" for err
    using that get_halftime_score_two [of lkvs q1 q2 others pf]
    by (auto split: sum.splits)
  have b: "\<exists>err. period_value pf q = Inl err" if "\<forall>kv. q \<noteq> JObj kv" for q
    using that by (cases q) (simp_all add: period_value_cases)
  have c: "get_halftime_score pf (JObj lkvs) = None"
    if "map_of lkvs ''linescores'' = Some (JArr (q1 # q2 # others))"
      and "(\<forall>kv. q1 \<noteq> JObj kv) \<or> (\<forall>kv. q2 \<noteq> JObj kv)"
    using that a b by blast
  have d: "get_halftime_score pf (JObj lkvs) = Some (v1 + v2)"
    if "map_of lkvs ''linescores'' = Some (JArr (q1 # q2 # others))"
      and "period_value pf q1 = Inr v1" and "period_value pf q2 = Inr v2"
    using that get_halftime_score_two [of lkvs q1 q2 others pf] by simp
  show ?thesis
    using get_halftime_score_cases [of pf competitor] period_value_cases [of pf score] a c d
    by blast
qed

lemma halftime_examples:
  "get_halftime_score digits_to_float
     (JObj [(''linescores'',
        JArr [JObj [(''displayValue'', JStr ''28'')], JObj [(''value'', JNum 30)],
              JObj [(''value'', JNum 27)]])]) = Some 30"
  "get_halftime_score digits_to_float
     (JObj [(''linescores'', JArr [JObj [(''value'', JNum 30)]])]) = None"
  "get_halftime_score digits_to_float (JObj [(''score'', JStr ''55'')]) = None"
  "period_value digits_to_float (JObj [(''displayValue'', JStr ''28'')]) = Inr 0"
  "period_value digits_to_float (JObj [(''value'', JNum 30)]) = Inr 30"
  "period_value digits_to_float (JObj [(''value'', JStr ''abc'')]) = Inl ValueError"
  "period_value digits_to_float (JObj [(''value'', JNull)]) = Inl TypeError"
  "period_value digits_to_float (JNum 28) = Inl AttributeError"
  by code_simp+

lemma period_value_overflow:
  "period_value digits_to_float (JObj [(''value'', JNum (10 ^ 309 + 30))]) = Inl OverflowError"
  by (simp add: period_value_cases)

theorem get_halftime_score_first_two_witness:
  "get_halftime_score digits_to_float
       (JObj [(''linescores'',
          JArr [JObj [(''displayValue'', JStr ''28'')], JObj [(''value'', JNum 30)],
                JObj [(''value'', JNum 27)]])]) = Some (0 + 30)
   \<and> period_value digits_to_float (JObj [(''displayValue'', JStr ''28'')]) = Inr 0
   \<and> period_value digits_to_float (JObj [(''value'', JNum 30)]) = Inr 30
   \<and> get_halftime_score digits_to_float
       (JObj [(''linescores'', JArr [JObj [(''value'', JNum 30)]])]) = None
   \<and> get_halftime_score digits_to_float (JObj [(''score'', JStr ''55'')]) = None
   \<and> period_value digits_to_float (JObj [(''value'', JStr ''abc'')]) = Inl ValueError
   \<and> get_halftime_score digits_to_float
       (JObj [(''linescores'',
          JArr [JObj [(''value'', JNum 30)], JObj [(''value'', JStr ''abc'')]])]) = None
   \<and> period_value digits_to_float (JObj [(''value'', JNum (10 ^ 309 + 30))])
       = Inl OverflowError
   \<and> get_halftime_score digits_to_float
       (JObj [(''linescores'',
          JArr [JObj [(''value'', JNum (10 ^ 309 + 30))], JObj [(''value'', JNum 30)]])])
       = None
   \<and> get_halftime_score digits_to_float
       (JObj [(''linescores'', JArr [JNum 28, JObj [(''value'', JNum 30)]])]) = None"
  using get_halftime_score_first_two
          [where pf = digits_to_float
             and lkvs = "[(''linescores'',
                JArr [JObj [(''displayValue'', JStr ''28'')], JObj [(''value'', JNum 30)],
                      JObj [(''value'', JNum 27)]])]"
             and ?q1.0 = "JObj [(''displayValue'', JStr ''28'')]"
             and ?q2.0 = "JObj [(''value'', JNum 30)]"
             and others = "[JObj [(''value'', JNum 27)]]" and ?v1.0 = 0 and ?v2.0 = 30]
        get_halftime_score_first_two
          [where pf = digits_to_float
             and lkvs = "[(''linescores'',
                JArr [JObj [(''value'', JNum 30)], JObj [(''value'', JStr ''abc'')]])]"
             and ?q1.0 = "JObj [(''value'', JNum 30)]"
             and ?q2.0 = "JObj [(''value'', JStr ''abc'')]"
             and others = "[]" and err = ValueError]
        get_halftime_score_first_two
          [where pf = digits_to_float
             and lkvs = "[(''linescores'',
                JArr [JObj [(''value'', JNum (10 ^ 309 + 30))], JObj [(''value'', JNum 30)]])]"
             and ?q1.0 = "JObj [(''value'', JNum (10 ^ 309 + 30))]"
             and ?q2.0 = "JObj [(''value'', JNum 30)]"
             and others = "[]" and err = OverflowError]
        get_halftime_score_first_two
          [where pf = digits_to_float
             and lkvs = "[(''linescores'', JArr [JNum 28, JObj [(''value'', JNum 30)]])]"
             and ?q1.0 = "JNum 28"
             and ?q2.0 = "JObj [(''value'', JNum 30)]"
             and others = "[]"]
        halftime_examples period_value_overflow
  by simp

subsection \<open>Evaluating the examples\<close>

lemmas example_defs =
  initial_run_def example_world_def offline_world_def first_only_world_def cached_run_def
  update_nba_halftime_averages_def update_first_half_def update_second_half_def
  fetch_succeeded_def Let_def strip_def whitespace_def digits_to_float_def digit_table_def

lemma resolve_examples:
  "resolve_team_name (JStr ''14'') = Inr (Some ''LA Lakers'')"
  "resolve_team_name (JStr ''2'') = Inr (Some ''Boston'')"
  "map_of team_id_mappings ''Lakers Team'' = None"
  "resolve_team_name (JStr ''Lakers Team'') = Inr (Some ''LA Lakers'')"
  "map_of nba_team_mappings ''Lakers'' = Some ''LA Lakers''"
  "map_of team_id_mappings ''14'' = Some ''Lakers''"
  "resolve_team_name (JStr ''Seattle'') = Inr None"
  "map_of team_id_mappings ''Seattle'' = None"
  "search_by_name ''Lakers Team'' nba_team_mappings = Some ''LA Lakers''"
  by code_simp+

lemma hornets_examples:
  "resolve_team_name (JStr ''Hawks Hornets'') = Inr (Some ''Atlanta'')"
  "sublist ''Hornets'' ''Hawks Hornets''"
  "map_of team_id_mappings ''Hawks Hornets'' = None"
  "map_of team_id_mappings ''Charlotte Hornets'' = None"
  "sublist ''Hornets'' ''Charlotte Hornets''"
  "sublist (lower ''Hawks'') (lower ''Charlotte Hornets'') = False"
  "sublist (lower ''Celtics'') (lower ''Charlotte Hornets'') = False"
  by code_simp+

lemma table_order:
  "take 4 (map fst nba_team_mappings) = [''Hawks'', ''Celtics'', ''Nets'', ''Hornets'']"
  "map_of nba_team_mappings ''Nets'' = Some ''Brooklyn''"
  "map_of nba_team_mappings ''Hornets'' = Some ''Charlotte''"
  by code_simp+

lemma resolve_non_string:
  "resolve_team_name (JNum 14) = Inl AttributeError"
  "resolve_team_name (JArr []) = Inl TypeError"
  by (simp_all add: resolve_team_name_def)

subsection \<open>C3: a failed refresh\<close>

text \<open>
  C3. When both fetches of a refresh fail (an exception, or a page without the table),
  both cached averages mappings are left as they were; and the timestamp is set to the
  current time exactly when the first-half fetch succeeds, whatever the second-half
  fetch does: otherwise it keeps its value.
\<close>

theorem update_failure_and_timestamp:
  "(\<not> fetch_succeeded (first_half_page w (fetches st))
      \<and> \<not> fetch_succeeded (second_half_page w (fetches st)) \<longrightarrow>
        nba_halftime_averages (update_nba_halftime_averages pf w st) = nba_halftime_averages st
      \<and> nba_second_half_averages (update_nba_halftime_averages pf w st)
          = nba_second_half_averages st)
   \<and> last_averages_update (update_nba_halftime_averages pf w st) =
       (if fetch_succeeded (first_half_page w (fetches st))
        then Some (clock w (clock_reads st))
        else last_averages_update st)"
  by (simp add: update_nba_halftime_averages_def update_first_half_def update_second_half_def
      fetch_succeeded_def Let_def split: page.splits)

theorem update_failure_and_timestamp_witness:
  "\<not> fetch_succeeded (first_half_page offline_world (fetches cached_run))
   \<and> \<not> fetch_succeeded (second_half_page offline_world (fetches cached_run))
   \<and> nba_halftime_averages (update_nba_halftime_averages digits_to_float offline_world cached_run)
       = nba_halftime_averages cached_run
   \<and> nba_second_half_averages (update_nba_halftime_averages digits_to_float offline_world cached_run)
       = nba_second_half_averages cached_run
   \<and> last_averages_update (update_nba_halftime_averages digits_to_float offline_world cached_run)
       = Some 0
   \<and> fetch_succeeded (first_half_page first_only_world (fetches cached_run))
   \<and> \<not> fetch_succeeded (second_half_page first_only_world (fetches cached_run))
   \<and> last_averages_update (update_nba_halftime_averages digits_to_float first_only_world cached_run)
       = Some 4000000000"
  using update_failure_and_timestamp [of offline_world cached_run digits_to_float]
        update_failure_and_timestamp [of first_only_world cached_run digits_to_float]
  by (simp add: offline_world_def first_only_world_def cached_run_def fetch_succeeded_def)


subsection \<open>Team-identifier resolution\<close>



lemma nick_tables: "map snd team_id_mappings = map fst nba_team_mappings"
  by (simp add: team_id_mappings_def nba_team_mappings_def)

lemma nick_known:
  assumes "map_of team_id_mappings s = Some nick"
  shows "\<exists>name. map_of nba_team_mappings nick = Some name"
proof -
  from assms have "nick \<in> set (map snd team_id_mappings)"
    by (auto dest!: map_of_SomeD intro: rev_image_eqI)
  then have "nick \<in> fst ` set nba_team_mappings" by (simp add: nick_tables)
  then show ?thesis by (cases "map_of nba_team_mappings nick") (auto simp: map_of_eq_None_iff)
qed

lemma resolve_str: "\<exists>r. resolve_team_name (JStr s) = Inr r"
  using nick_known [of s]
  by (auto simp add: resolve_team_name_def split: option.splits)

lemma lower_sublist: "sublist p s \<Longrightarrow> sublist (lower p) (lower s)"
  unfolding lower_def by (rule map_mono_sublist)

lemma lower_hornets: "lower ''Hornets'' = ''hornets''"
  by code_simp

lemma nets_in_hornets: "sublist ''nets'' ''hornets''"
  by code_simp

lemma hornets_contains_nets:
  assumes "sublist ''Hornets'' s"
  shows "sublist (lower ''Nets'') (lower s)"
proof -
  have h: "sublist ''hornets'' (lower s)"
    using lower_sublist [OF assms] by (simp only: lower_hornets)
  have n: "lower ''Nets'' = ''nets''" by code_simp
  have "sublist ''nets'' (lower s)"
    by (rule sublist_order.order.trans [OF nets_in_hornets h])
  then show ?thesis by (simp only: n)
qed

lemma table_head:
  "nba_team_mappings =
     (''Hawks'', ''Atlanta'') # (''Celtics'', ''Boston'') # (''Nets'', ''Brooklyn'')
       # drop 3 nba_team_mappings"
  by (simp add: nba_team_mappings_def)

lemma search_first_three:
  "search_by_name s nba_team_mappings =
     (if sublist (lower ''Hawks'') (lower s) then Some ''Atlanta''
      else if sublist (lower ''Celtics'') (lower s) then Some ''Boston''
      else if sublist (lower ''Nets'') (lower s) then Some ''Brooklyn''
      else search_by_name s (drop 3 nba_team_mappings))"
  by (subst table_head) (simp only: search_by_name.simps)



text \<open>
  C10 as stated fails: an identifier that contains \<open>Hornets\<close> and is no numeric code need
  not resolve to \<open>Brooklyn\<close>, because \<open>Hawks\<close> and \<open>Celtics\<close> come before \<open>Nets\<close> in the
  table and win when they occur in the identifier too.
\<close>

theorem hornets_shadowed_counterexample:
  "map_of team_id_mappings ''Hawks Hornets'' = None
   \<and> sublist ''Hornets'' ''Hawks Hornets''
   \<and> resolve_team_name (JStr ''Hawks Hornets'') = Inr (Some ''Atlanta'')
   \<and> ''Atlanta'' \<noteq> ''Brooklyn''"
  using hornets_examples by simp

text \<open>
  C10 (amended). The nicknames are tried in the insertion order of the table, in which
  \<open>Nets\<close> precedes \<open>Hornets\<close>. An identifier that contains \<open>Hornets\<close> and is not a known
  numeric code never resolves to \<open>Charlotte\<close>: it resolves to \<open>Brooklyn\<close>, unless it also
  contains, case-insensitively, \<open>Hawks\<close> (then \<open>Atlanta\<close>) or else \<open>Celtics\<close> (then
  \<open>Boston\<close>), the two nicknames tried before \<open>Nets\<close>.
\<close>

theorem hornets_shadowed_by_nets:
  "take 4 (map fst nba_team_mappings) = [''Hawks'', ''Celtics'', ''Nets'', ''Hornets'']
   \<and> map_of nba_team_mappings ''Nets'' = Some ''Brooklyn''
   \<and> map_of nba_team_mappings ''Hornets'' = Some ''Charlotte''
   \<and> (map_of team_id_mappings s = None \<and> sublist ''Hornets'' s \<longrightarrow>
        resolve_team_name (JStr s) \<noteq> Inr (Some ''Charlotte'')
      \<and> resolve_team_name (JStr s) =
          Inr (Some (if sublist (lower ''Hawks'') (lower s) then ''Atlanta''
                     else if sublist (lower ''Celtics'') (lower s) then ''Boston''
                     else ''Brooklyn'')))"
proof -
  have "resolve_team_name (JStr s) =
          Inr (Some (if sublist (lower ''Hawks'') (lower s) then ''Atlanta''
                     else if sublist (lower ''Celtics'') (lower s) then ''Boston''
                     else ''Brooklyn''))"
    if "map_of team_id_mappings s = None" "sublist ''Hornets'' s"
    using that(1) hornets_contains_nets [OF that(2)]
    by (simp add: resolve_team_name_def search_first_three)
  then show ?thesis using table_order by simp
qed

theorem hornets_shadowed_by_nets_witness:
  "map_of team_id_mappings ''Charlotte Hornets'' = None
   \<and> sublist ''Hornets'' ''Charlotte Hornets''
   \<and> resolve_team_name (JStr ''Charlotte Hornets'') = Inr (Some ''Brooklyn'')"
  using hornets_shadowed_by_nets [of "''Charlotte Hornets''"] hornets_examples
  by simp

subsection \<open>get_team_stats: refresh and totality\<close>

lemma get_team_stats_snd:
  "snd (get_team_stats pf w st team_id sh) = refresh_if_stale pf w st"
  by (simp add: get_team_stats_def get_team_stats_try_def Let_def bind_e_def
      split: sum.splits option.splits)

lemma get_team_stats_fst:
  "fst (get_team_stats pf w st team_id sh) =
     (case resolve_team_name team_id of
        Inr (Some name) \<Rightarrow>
          Inr (if name = [] then None
               else if sh then nba_second_half_averages (refresh_if_stale pf w st) name
               else nba_halftime_averages (refresh_if_stale pf w st) name)
      | _ \<Rightarrow> Inr None)"
  by (simp add: get_team_stats_def get_team_stats_try_def Let_def bind_e_def
      split: sum.splits option.splits)

lemma fetches_update: "fetches (update_nba_halftime_averages pf w st) = Suc (fetches st)"
  by (simp add: update_nba_halftime_averages_def Let_def)

lemma read_clock_fields:
  "fetches (read_clock st) = fetches st"
  "nba_halftime_averages (read_clock st) = nba_halftime_averages st"
  "nba_second_half_averages (read_clock st) = nba_second_half_averages st"
  "last_averages_update (read_clock st) = last_averages_update st"
  by (simp_all add: read_clock_def split: option.splits)

text \<open>
  C6. Every call of get_team_stats refreshes the averages before resolving, exactly
  when the timestamp is None (never fetched) or more than 3600 seconds old; when the
  cache is not older than that, no refresh occurs and the cache is left as it was. The
  lookup reads the tables the call leaves behind.
\<close>

theorem get_team_stats_refresh:
  "snd (get_team_stats pf w st team_id sh) =
     (if stale w st then update_nba_halftime_averages pf w (read_clock st) else read_clock st)
   \<and> (last_averages_update st = None \<longrightarrow>
        fetches (snd (get_team_stats pf w st team_id sh)) = Suc (fetches st))
   \<and> (last_averages_update st = Some t \<and> clock w (clock_reads st) - t > 3600000000 \<longrightarrow>
        fetches (snd (get_team_stats pf w st team_id sh)) = Suc (fetches st))
   \<and> (last_averages_update st = Some t \<and> clock w (clock_reads st) - t \<le> 3600000000 \<longrightarrow>
        fetches (snd (get_team_stats pf w st team_id sh)) = fetches st
      \<and> nba_halftime_averages (snd (get_team_stats pf w st team_id sh))
          = nba_halftime_averages st
      \<and> nba_second_half_averages (snd (get_team_stats pf w st team_id sh))
          = nba_second_half_averages st
      \<and> last_averages_update (snd (get_team_stats pf w st team_id sh)) = Some t)
   \<and> fst (get_team_stats pf w st team_id sh) =
       (case resolve_team_name team_id of
          Inr (Some name) \<Rightarrow>
            Inr (if name = [] then None
                 else if sh
                   then nba_second_half_averages (snd (get_team_stats pf w st team_id sh)) name
                   else nba_halftime_averages (snd (get_team_stats pf w st team_id sh)) name)
        | _ \<Rightarrow> Inr None)"
  by (simp add: get_team_stats_snd get_team_stats_fst refresh_if_stale_def stale_def
      fetches_update read_clock_fields split: sum.splits option.splits)

theorem get_team_stats_refresh_witness:
  "last_averages_update initial_run = None
   \<and> fetches (snd (get_team_stats digits_to_float example_world initial_run (JStr ''14'') False))
       = Suc (fetches initial_run)
   \<and> fst (get_team_stats digits_to_float example_world initial_run (JStr ''14'') False)
       = Inr (Some 52)
   \<and> last_averages_update cached_run = Some 0
   \<and> clock first_only_world (clock_reads cached_run) - 0 > 3600000000
   \<and> fetches (snd (get_team_stats digits_to_float first_only_world cached_run (JStr ''2'') True))
       = Suc (fetches cached_run)
   \<and> clock example_world (clock_reads cached_run) - 0 \<le> 3600000000
   \<and> fetches (snd (get_team_stats digits_to_float example_world cached_run (JStr ''2'') True))
       = fetches cached_run
   \<and> fst (get_team_stats digits_to_float example_world cached_run (JStr ''2'') True)
       = Inr (Some 47)"
  using get_team_stats_refresh [of digits_to_float example_world initial_run "JStr ''14''" False]
        get_team_stats_refresh [of digits_to_float first_only_world cached_run "JStr ''2''" True 0]
        get_team_stats_refresh [of digits_to_float example_world cached_run "JStr ''2''" True 0]
  by (simp add: example_defs stale_def read_clock_def resolve_examples)

text \<open>
  C9. For every team identifier (a string or any other decoded value), every value of
  the second_half flag and every cache state, get_team_stats returns a value and raises
  nothing: an unresolvable identifier, a team without a recorded average and an
  exception inside the body all yield None. For a string, resolution itself raises no
  exception.
\<close>

theorem get_team_stats_total:
  "(\<exists>r. fst (get_team_stats pf w st team_id sh) = Inr r)
   \<and> (resolve_team_name team_id = Inr None \<longrightarrow>
        fst (get_team_stats pf w st team_id sh) = Inr None)
   \<and> (resolve_team_name team_id = Inr (Some name)
        \<and> (if sh then nba_second_half_averages (snd (get_team_stats pf w st team_id sh)) name
            else nba_halftime_averages (snd (get_team_stats pf w st team_id sh)) name) = None \<longrightarrow>
        fst (get_team_stats pf w st team_id sh) = Inr None)
   \<and> (resolve_team_name team_id = Inl e \<longrightarrow>
        fst (get_team_stats pf w st team_id sh) = Inr None)
   \<and> (\<exists>name. resolve_team_name (JStr s) = Inr name)"
  using resolve_str [of s]
  by (auto simp add: get_team_stats_snd get_team_stats_fst split: sum.splits option.splits)

theorem get_team_stats_total_witness:
  "resolve_team_name (JStr ''Seattle'') = Inr None
   \<and> fst (get_team_stats digits_to_float example_world cached_run (JStr ''Seattle'') False)
       = Inr None
   \<and> resolve_team_name (JStr ''14'') = Inr (Some ''LA Lakers'')
   \<and> nba_second_half_averages
        (snd (get_team_stats digits_to_float offline_world initial_run (JStr ''14'') True))
        ''LA Lakers'' = None
   \<and> fst (get_team_stats digits_to_float offline_world initial_run (JStr ''14'') True)
       = Inr None
   \<and> resolve_team_name (JNum 14) = Inl AttributeError
   \<and> fst (get_team_stats digits_to_float example_world cached_run (JNum 14) False) = Inr None"
  using get_team_stats_total [of digits_to_float example_world cached_run "JStr ''Seattle''" False]
        get_team_stats_total [of digits_to_float offline_world initial_run "JStr ''14''" True
          "''LA Lakers''"]
        get_team_stats_total [of digits_to_float example_world cached_run "JNum 14" False _
          AttributeError]
        resolve_examples resolve_non_string
  by (simp add: get_team_stats_snd refresh_if_stale_def stale_def read_clock_def example_defs)

subsection \<open>Evaluating one cycle on the examples\<close>


lemma cycle_examples:
  "fst (snd (monitor_cycle digits_to_float offline_world (scoreboard [lakers_celtics_live])
      initial_run)) = [Live no_data_line]"
  "fst (snd (monitor_cycle digits_to_float example_world
      (scoreboard [lakers_celtics_live, lakers_celtics_final]) initial_run))
     = [Live both_hot_line, Final lakers_celtics_line]"
  "fst (monitor_cycle digits_to_float example_world
      (scoreboard [bad_score_final, lakers_celtics_final]) initial_run) = Some ValueError"
  "fst (snd (monitor_cycle digits_to_float example_world
      (scoreboard [bad_score_final, lakers_celtics_final]) initial_run)) = []"
  "fst (snd (monitor_cycle digits_to_float example_world
      (scoreboard [lakers_celtics_final]) initial_run)) = [Final lakers_celtics_line]"
  "classify_event digits_to_float no_linescores_event = Inr None"
  "final_score digits_to_float (game_home_team bad_score_game) = Inl ValueError"
  "classify_event digits_to_float bad_score_final = Inr (Some (True, bad_score_game))"
  by code_simp+

lemma emphasis_examples:
  "\<not> emphasised (Live no_data_line)"
  "spec_emphasis (Live no_data_line)"
  "emphasised (Live both_hot_line)"
  "emphasis_expected (Live both_hot_line)"
  "\<not> emphasised (Final lakers_celtics_line)"
  "\<not> emphasis_expected (Final lakers_celtics_line)"
  by code_simp+

subsection \<open>C5: the second-half score\<close>




subsection \<open>C7: emphasis\<close>

lemma render_live_game_bold:
  "render_live_game pf w game st = (Inr l, st') \<Longrightarrow> emphasised (Live l) = emphasis_expected (Live l)"
  by (auto simp add: render_live_game_def bind_s_def pure_s_def bind_e_def Let_def
      shared_hot_or_cold_def split: sum.splits prod.splits)

lemma render_completed_game_bold:
  "render_completed_game pf w game st = (Inr f, st') \<Longrightarrow>
     emphasised (Final f) = emphasis_expected (Final f)"
  by (auto simp add: render_completed_game_def bind_s_def pure_s_def bind_e_def Let_def
      shared_hot_or_cold_def split: sum.splits prod.splits)

lemma render_live_games_bold:
  "\<forall>x \<in> set out. emphasised x = emphasis_expected x \<Longrightarrow>
   \<forall>x \<in> set (fst (snd (render_live_games pf w games st out))).
      emphasised x = emphasis_expected x"
proof (induction games arbitrary: st out)
  case Nil
  then show ?case by simp
next
  case (Cons game games)
  show ?case
  proof (cases "render_live_game pf w game st")
    case (Pair r st1)
    show ?thesis
    proof (cases r)
      case (Inl e)
      with Pair Cons.prems show ?thesis by simp
    next
      case (Inr l)
      with Pair have "emphasised (Live l) = emphasis_expected (Live l)"
        using render_live_game_bold by blast
      with Cons.prems have "\<forall>x \<in> set (out @ [Live l]). emphasised x = emphasis_expected x"
        by auto
      from Cons.IH [OF this] Pair Inr show ?thesis by simp
    qed
  qed
qed

lemma render_completed_games_bold:
  "\<forall>x \<in> set out. emphasised x = emphasis_expected x \<Longrightarrow>
   \<forall>x \<in> set (fst (snd (render_completed_games pf w games st out))).
      emphasised x = emphasis_expected x"
proof (induction games arbitrary: st out)
  case Nil
  then show ?case by simp
next
  case (Cons game games)
  show ?case
  proof (cases "render_completed_game pf w game st")
    case (Pair r st1)
    show ?thesis
    proof (cases r)
      case (Inl e)
      with Pair Cons.prems show ?thesis by simp
    next
      case (Inr f)
      with Pair have "emphasised (Final f) = emphasis_expected (Final f)"
        using render_completed_game_bold by blast
      with Cons.prems have "\<forall>x \<in> set (out @ [Final f]). emphasised x = emphasis_expected x"
        by auto
      from Cons.IH [OF this] Pair Inr show ?thesis by simp
    qed
  qed
qed

text \<open>
  C7 as stated fails: no-data is a rating other than neutral, and a line whose two
  teams both have no data (here: no averages could be fetched) is not emphasised.
\<close>

theorem emphasis_no_data_counterexample:
  "fst (snd (monitor_cycle digits_to_float offline_world (scoreboard [lakers_celtics_live])
      initial_run)) = [Live no_data_line]
   \<and> live_home_perf no_data_line = NoData
   \<and> live_away_perf no_data_line = NoData
   \<and> spec_emphasis (Live no_data_line)
   \<and> \<not> emphasised (Live no_data_line)"
  using cycle_examples(1) emphasis_examples by (simp add: no_data_line_def)

text \<open>
  C7 (amended). Every game line a cycle prints is emphasised (bold) if and only if both
  teams are hot or both are cold; for a completed game, if and only if both are hot or
  both are cold in the same half (first or second). A shared no-data rating gives no
  emphasis.
\<close>

theorem emphasis_both_hot_or_both_cold:
  "\<forall>game_line \<in> set (fst (snd (monitor_cycle pf w data st))).
     emphasised game_line = emphasis_expected game_line"
proof (cases "collect_games pf data")
  case (Inl e)
  then show ?thesis by (simp add: monitor_cycle_def)
next
  case (Inr r)
  show ?thesis
  proof (cases r)
    case None
    with Inr show ?thesis by (simp add: monitor_cycle_def)
  next
    case (Some games)
    obtain live_games completed_games where g: "games = (live_games, completed_games)"
      by (cases games)
    obtain err out st1 where l: "render_live_games pf w live_games st [] = (err, out, st1)"
      by (cases "render_live_games pf w live_games st []") auto
    have o: "\<forall>x \<in> set out. emphasised x = emphasis_expected x"
      using render_live_games_bold [of "[]" pf w live_games st] l by simp
    show ?thesis
    proof (cases err)
      case None
      with Inr Some g l show ?thesis
        using render_completed_games_bold [OF o, of pf w completed_games st1]
        by (simp add: monitor_cycle_def)
    next
      case (Some e)
      with Inr \<open>r = Some games\<close> g l o show ?thesis
        by (simp add: monitor_cycle_def)
    qed
  qed
qed

theorem emphasis_both_hot_or_both_cold_witness:
  "Live both_hot_line \<in> set (fst (snd (monitor_cycle digits_to_float example_world
      (scoreboard [lakers_celtics_live, lakers_celtics_final]) initial_run)))
   \<and> emphasised (Live both_hot_line)
   \<and> emphasis_expected (Live both_hot_line)
   \<and> Final lakers_celtics_line \<in> set (fst (snd (monitor_cycle digits_to_float example_world
      (scoreboard [lakers_celtics_live, lakers_celtics_final]) initial_run)))
   \<and> \<not> emphasised (Final lakers_celtics_line)
   \<and> \<not> emphasis_expected (Final lakers_celtics_line)"
  using emphasis_both_hot_or_both_cold [of digits_to_float example_world
          "scoreboard [lakers_celtics_live, lakers_celtics_final]" initial_run]
        cycle_examples(2) emphasis_examples
  by simp

subsection \<open>C8: malformed data of one game\<close>

lemma classify_events_skip:
  "classify_event pf event = Inr None \<Longrightarrow>
   classify_events pf (before @ event # after) live_games completed_games =
   classify_events pf (before @ after) live_games completed_games"
  by (induction before arbitrary: live_games completed_games)
     (simp_all add: bind_e_def split: sum.splits option.splits prod.splits)

lemma collect_games_events:
  "map_of kvs ''events'' = Some (JArr events) \<Longrightarrow>
   collect_games pf (JObj kvs) =
     bind_e (classify_events pf events [] []) (\<lambda>games. Inr (Some games))"
  by (simp add: collect_games_def py_contains_def py_getitem_def py_iter_def bind_e_def)

lemma classify_event_no_halftime:
  assumes "map_of ekvs ''competitions'' = Some (JArr (JObj ckvs # cs))"
    and "map_of ckvs ''competitors'' = Some (JArr (home_team # away_team # rest))"
    and "get_halftime_score pf home_team = None \<or> get_halftime_score pf away_team = None"
  shows "classify_event pf (JObj ekvs) = Inr None"
  using assms
  by (auto simp add: classify_event_def py_contains_def py_getitem_def py_len_def py_index_def
      bind_e_def split: option.splits)

lemma render_completed_game_bad_score:
  "final_score pf (game_home_team game) = Inl e \<Longrightarrow>
     render_completed_game pf w game st = (Inl e, st)"
  "final_score pf (game_home_team game) = Inr x \<Longrightarrow> final_score pf (game_away_team game) = Inl e \<Longrightarrow>
     render_completed_game pf w game st = (Inl e, st)"
  by (simp_all add: render_completed_game_def bind_s_def pure_s_def)

lemma monitor_cycle_skip:
  assumes "classify_event pf event = Inr None"
    and "map_of kvs ''events'' = Some (JArr (before @ event # after))"
    and "map_of kvs' ''events'' = Some (JArr (before @ after))"
  shows "monitor_cycle pf w (JObj kvs) st = monitor_cycle pf w (JObj kvs') st"
  using assms
  by (simp add: monitor_cycle_def collect_games_events classify_events_skip)

text \<open>
  C8 as stated fails for a non-numeric score: the first completed game has the score
  \<open>'abc'\<close>, float() raises ValueError in the display loop, the handler of the cycle
  catches it, and the well-formed game after it is not rendered either.
\<close>

theorem bad_score_aborts_cycle_counterexample:
  "classify_event digits_to_float bad_score_final = Inr (Some (True, bad_score_game))
   \<and> final_score digits_to_float (game_home_team bad_score_game) = Inl ValueError
   \<and> fst (monitor_cycle digits_to_float example_world
        (scoreboard [bad_score_final, lakers_celtics_final]) initial_run) = Some ValueError
   \<and> fst (snd (monitor_cycle digits_to_float example_world
        (scoreboard [bad_score_final, lakers_celtics_final]) initial_run)) = []
   \<and> fst (snd (monitor_cycle digits_to_float example_world
        (scoreboard [lakers_celtics_final]) initial_run)) = [Final lakers_celtics_line]"
  using cycle_examples by simp

text \<open>
  C8 (amended). Within a successfully fetched scoreboard cycle, an event that is passed
  over (in particular one where a team has no first-half score: missing linescores,
  fewer than two periods, a malformed period) is skipped alone: the cycle prints and
  does exactly what it does on the scoreboard without that event. A completed game whose
  final score float() rejects is not skipped alone: the exception ends the display
  loop, so that game and the completed games after it are not rendered, while the lines
  already printed stay.
\<close>

theorem missing_halftime_skips_bad_score_aborts:
  "(classify_event pf event = Inr None
      \<and> map_of kvs ''events'' = Some (JArr (before @ event # after))
      \<and> map_of kvs' ''events'' = Some (JArr (before @ after)) \<longrightarrow>
        monitor_cycle pf w (JObj kvs) st = monitor_cycle pf w (JObj kvs') st)
   \<and> (map_of ekvs ''competitions'' = Some (JArr (JObj ckvs # cs))
      \<and> map_of ckvs ''competitors'' = Some (JArr (home_team # away_team # rest))
      \<and> (get_halftime_score pf home_team = None \<or> get_halftime_score pf away_team = None) \<longrightarrow>
        classify_event pf (JObj ekvs) = Inr None)
   \<and> ((case final_score pf (game_home_team game) of
          Inl e' \<Rightarrow> e' = e
        | Inr x \<Rightarrow> final_score pf (game_away_team game) = Inl e) \<longrightarrow>
        render_completed_games pf w (game # games) st out = (Some e, out, st))"
proof -
  have "render_completed_game pf w game st = (Inl e, st)"
    if "case final_score pf (game_home_team game) of
          Inl e' \<Rightarrow> e' = e
        | Inr x \<Rightarrow> final_score pf (game_away_team game) = Inl e"
    using that render_completed_game_bad_score [where pf = pf and game = game and w = w and st = st]
    by (cases "final_score pf (game_home_team game)") auto
  then show ?thesis
    using monitor_cycle_skip [where pf = pf and event = event and kvs = kvs
            and before = before and after = after and kvs' = kvs' and w = w and st = st]
          classify_event_no_halftime [where ekvs = ekvs and ckvs = ckvs and cs = cs
            and home_team = home_team and away_team = away_team and rest = rest and pf = pf]
    by auto
qed

theorem missing_halftime_skips_bad_score_aborts_witness:
  "classify_event digits_to_float no_linescores_event = Inr None
   \<and> monitor_cycle digits_to_float example_world
        (scoreboard [no_linescores_event, lakers_celtics_final]) initial_run
      = monitor_cycle digits_to_float example_world
        (scoreboard [lakers_celtics_final]) initial_run
   \<and> fst (snd (monitor_cycle digits_to_float example_world
        (scoreboard [lakers_celtics_final]) initial_run)) = [Final lakers_celtics_line]
   \<and> get_halftime_score digits_to_float
        (JObj [(''team'', JObj [(''id'', JStr ''16''), (''name'', JStr ''Heat'')]),
               (''score'', JStr ''12'')]) = None
   \<and> final_score digits_to_float (game_home_team bad_score_game) = Inl ValueError
   \<and> render_completed_games digits_to_float example_world
        [bad_score_game, lakers_celtics_game] initial_run []
      = (Some ValueError, [], initial_run)"
  using missing_halftime_skips_bad_score_aborts
          [where pf = digits_to_float and event = no_linescores_event
             and kvs = "[(''events'', JArr [no_linescores_event, lakers_celtics_final])]"
             and before = "[]" and after = "[lakers_celtics_final]"
             and kvs' = "[(''events'', JArr [lakers_celtics_final])]"
             and w = example_world and st = initial_run
             and ekvs = "[(''competitions'', JArr [JObj [(''competitors'',
                 JArr [JObj [(''team'', JObj [(''id'', JStr ''16''), (''name'', JStr ''Heat'')]),
                             (''score'', JStr ''12'')],
                       example_competitor ''Bulls'' ''5'' (JStr ''10'') [10]])]]),
               (''status'', JObj [(''type'',
                  JObj [(''state'', JStr ''in''), (''detail'', JStr ''1st Quarter'')])])]"
             and ckvs = "[(''competitors'',
                 JArr [JObj [(''team'', JObj [(''id'', JStr ''16''), (''name'', JStr ''Heat'')]),
                             (''score'', JStr ''12'')],
                       example_competitor ''Bulls'' ''5'' (JStr ''10'') [10]])]"
             and cs = "[]"
             and home_team =
               "JObj [(''team'', JObj [(''id'', JStr ''16''), (''name'', JStr ''Heat'')]),
                      (''score'', JStr ''12'')]"
             and away_team = "example_competitor ''Bulls'' ''5'' (JStr ''10'') [10]"
             and rest = "[]"
             and game = bad_score_game and e = ValueError
             and games = "[lakers_celtics_game]" and out = "[]"]
        cycle_examples
  by (simp add: scoreboard_def get_halftime_score_no_linescores)

end
